theory Spec2Isabelle
  imports Complex_Main
begin

section \<open>JavaScript values used by the camera screen and the HTTP client\<close>

text \<open>
  Byte sizes, pixel dimensions and folder ids are JavaScript numbers holding non-negative
  integers; they are modelled as \<open>nat\<close>, and a property that may be absent
  (\<^verbatim>\<open>undefined\<close>) as an \<open>option\<close>.  A fractional number is the rational value of an
  IEEE 754 double: \<open>to_double\<close> rounds a rational to the nearest double (53 significant
  bits, ties to even), a decimal literal such as \<^verbatim>\<open>0.15\<close> denotes \<open>to_double (15 / 100)\<close>,
  and a product of doubles is the rounded exact product.  The exponent range is not
  bounded: the rounding is that of a double for magnitudes between \<open>2 powi (-1022)\<close> and
  \<open>2 powi 1024\<close>, which the numbers of the camera screen (dimensions up to 1200, qualities
  and the factor 0.15) never leave.  \<^verbatim>\<open>Math.round\<close> takes the double to the nearest
  integer, halves upwards.  The one quotient of the screen, in the target dimensions, is
  kept exact: it is below 1200, so for a divisor below \<open>2 ^ 40\<close> its double has the same
  nearest integer.

  A handler reads the screen state of the moment it runs (state setters are taken to act
  at once), console output is left out, and what a handler does outside the component
  (alerts, the image library, the upload request, navigation) is returned as a list of
  \<open>effect\<close>s in the order of the calls.
\<close>

definition truthy_num :: "nat option \<Rightarrow> bool" where
  \<comment> \<open>JavaScript truthiness of a number: \<^verbatim>\<open>undefined\<close> and \<^verbatim>\<open>0\<close> are falsy.\<close>
  "truthy_num v = (case v of None \<Rightarrow> False | Some n \<Rightarrow> n \<noteq> 0)"

definition js_lt :: "nat option \<Rightarrow> nat \<Rightarrow> bool" where
  \<comment> \<open>\<^verbatim>\<open>v < n\<close>; a comparison with \<^verbatim>\<open>undefined\<close> is false.\<close>
  "js_lt v n = (case v of None \<Rightarrow> False | Some k \<Rightarrow> k < n)"

definition js_gt :: "nat option \<Rightarrow> nat \<Rightarrow> bool" where
  \<comment> \<open>\<^verbatim>\<open>v > n\<close>; a comparison with \<^verbatim>\<open>undefined\<close> is false.\<close>
  "js_gt v n = (case v of None \<Rightarrow> False | Some k \<Rightarrow> n < k)"

definition or_default :: "nat option \<Rightarrow> nat \<Rightarrow> nat" where
  \<comment> \<open>\<^verbatim>\<open>v || d\<close> for a number \<open>v\<close>.\<close>
  "or_default v d = (case v of None \<Rightarrow> d | Some n \<Rightarrow> if n = 0 then d else n)"

definition Math_round :: "rat \<Rightarrow> int" where
  \<comment> \<open>\<^verbatim>\<open>Math.round\<close>: the nearest integer, halves rounded up.\<close>
  "Math_round x = \<lfloor>x + 1 / 2\<rfloor>"

fun bit_length :: "nat \<Rightarrow> nat" where
  \<comment> \<open>the number of binary digits of \<open>n\<close>\<close>
  "bit_length n = (if n = 0 then 0 else Suc (bit_length (n div 2)))"

declare bit_length.simps [simp del]

definition binade :: "rat \<Rightarrow> int" where
  \<comment> \<open>for \<open>x > 0\<close>, the exponent \<open>e\<close> with \<open>2 powi e \<le> x < 2 powi (e + 1)\<close>\<close>
  "binade x =
     (if 1 \<le> x then int (bit_length (nat \<lfloor>x\<rfloor>)) - 1
      else
        (let e0 = - int (bit_length (nat \<lfloor>1 / x\<rfloor>))
         in if 2 powi (e0 + 1) \<le> x then e0 + 1 else e0))"

definition round_half_even :: "rat \<Rightarrow> int" where
  "round_half_even x =
     (let f = \<lfloor>x\<rfloor>; d = x - of_int f
      in if d < 1 / 2 then f
         else if 1 / 2 < d then f + 1
         else if even f then f else f + 1)"

definition double_pos :: "rat \<Rightarrow> rat" where
  \<comment> \<open>the double nearest to \<open>x > 0\<close>: a multiple of the spacing \<open>2 powi (binade x - 52)\<close>\<close>
  "double_pos x = (let u = 2 powi (binade x - 52) in of_int (round_half_even (x / u)) * u)"

definition to_double :: "rat \<Rightarrow> rat" where
  "to_double x = (if x = 0 then 0 else if 0 < x then double_pos x else - double_pos (- x))"

section \<open>CameraScreen.js: constants, assets and screen state\<close>

definition MAX_IMAGE_SIZE :: nat where
  "MAX_IMAGE_SIZE = 1900000"

definition MAX_DIMENSION :: nat where
  "MAX_DIMENSION = 1200"

definition SAFETY_TIMEOUT :: nat where
  "SAFETY_TIMEOUT = 5000"

record asset =
  uri :: string
  fileSize :: "nat option"
  width :: "nat option"
  height :: "nat option"

text \<open>
  The value handed to \<^verbatim>\<open>processImage\<close>: the picker's result object.  It either lists
  assets, or (older format) carries the asset's own properties next to \<^verbatim>\<open>canceled\<close>.
\<close>

record imageResult =
  canceled :: bool
  assets :: "asset list option"
  ownUri :: "string option"
  ownFileSize :: "nat option"
  ownWidth :: "nat option"
  ownHeight :: "nat option"

record manipRequest =
  reqUri :: string
  reqWidth :: nat
  reqHeight :: nat
  reqCompress :: rat

datatype manipOutcome = ManipThrows | ManipResult asset

datatype uploadOutcome = UploadOk | UploadFailed "nat option"

datatype effect =
    Alert string string
  | ManipulateAsync manipRequest
  | UploadRequest asset nat
  | NavReplace string "nat option"
  | NavGoBack

record screen =
  capturedImage :: "asset option"
  loading :: bool
  processingImage :: bool
  isNavigating :: bool
  uploadingRef :: bool
  navigationTimeoutRef :: "nat option"
  mountedRef :: bool
  folderId :: "nat option"

definition setLoading :: "bool \<Rightarrow> screen \<Rightarrow> screen" where
  "setLoading v s = s\<lparr>loading := v\<rparr>"

definition setProcessingImage :: "bool \<Rightarrow> screen \<Rightarrow> screen" where
  "setProcessingImage v s = s\<lparr>processingImage := v\<rparr>"

definition setIsNavigating :: "bool \<Rightarrow> screen \<Rightarrow> screen" where
  "setIsNavigating v s = s\<lparr>isNavigating := v\<rparr>"

definition setCapturedImage :: "asset option \<Rightarrow> screen \<Rightarrow> screen" where
  "setCapturedImage v s = s\<lparr>capturedImage := v\<rparr>"

definition safeSetState :: "('v \<Rightarrow> screen \<Rightarrow> screen) \<Rightarrow> 'v \<Rightarrow> screen \<Rightarrow> screen" where
  "safeSetState setter v s = (if mountedRef s then setter v s else s)"

definition resetAllStates :: "screen \<Rightarrow> screen" where
  "resetAllStates s =
     (if mountedRef s then
        (let s1 = safeSetState setIsNavigating False s;
             s2 = safeSetState setLoading False s1;
             s3 = safeSetState setProcessingImage False s2;
             s4 = s3\<lparr>uploadingRef := False\<rparr>
         in if navigationTimeoutRef s4 \<noteq> None then s4\<lparr>navigationTimeoutRef := None\<rparr> else s4)
      else s)"

definition isOperationInProgress :: "screen \<Rightarrow> bool" where
  "isOperationInProgress s = (loading s \<or> processingImage s \<or> isNavigating s \<or> uploadingRef s)"

section \<open>processImage\<close>

definition smallEnough :: "asset \<Rightarrow> bool" where
  \<comment> \<open>\<^verbatim>\<open>imageAsset.fileSize && imageAsset.fileSize < MAX_IMAGE_SIZE\<close>\<close>
  "smallEnough a = (truthy_num (fileSize a) \<and> js_lt (fileSize a) MAX_IMAGE_SIZE)"

definition compressionQuality :: "nat option \<Rightarrow> rat" where
  "compressionQuality fs =
     (if js_gt fs 5000000 then 5 / 10
      else if js_gt fs 3000000 then 6 / 10
      else 7 / 10)"

definition targetDimensions :: "asset \<Rightarrow> nat \<times> nat" where
  "targetDimensions a =
     (let w = or_default (width a) 1000;
          h = or_default (height a) 1000
      in if w > h \<and> w > MAX_DIMENSION then
           (MAX_DIMENSION, nat (Math_round (of_nat (h * MAX_DIMENSION) / of_nat w)))
         else if h > MAX_DIMENSION then
           (nat (Math_round (of_nat (w * MAX_DIMENSION) / of_nat h)), MAX_DIMENSION)
         else (w, h))"

definition estimatedSize :: "nat \<Rightarrow> nat \<Rightarrow> rat \<Rightarrow> nat" where
  \<comment> \<open>\<^verbatim>\<open>Math.round(width * height * quality * 0.15)\<close>\<close>
  "estimatedSize w h q =
     nat (Math_round
            (to_double (to_double (to_double (of_nat w * of_nat h) * to_double q)
                        * to_double (15 / 100))))"

definition extractAsset :: "imageResult \<Rightarrow> asset option" where
  "extractAsset r =
     (case assets r of
        Some (a # rest) \<Rightarrow> Some a
      | _ \<Rightarrow>
        (case ownUri r of
           Some u \<Rightarrow>
             if u \<noteq> [] then
               Some \<lparr>uri = u, fileSize = ownFileSize r, width = ownWidth r, height = ownHeight r\<rparr>
             else None
         | None \<Rightarrow> None))"

datatype procStep = Return "asset option" | AwaitManipulate manipRequest

text \<open>
  \<^verbatim>\<open>processImage\<close> is asynchronous: it runs up to the call of
  \<^verbatim>\<open>ImageManipulator.manipulateAsync\<close>, and resumes on the screen state of the moment
  the call settles.
\<close>

definition processImage_begin :: "imageResult option \<Rightarrow> screen \<Rightarrow> procStep \<times> screen" where
  "processImage_begin ir s =
     (case ir of
        None \<Rightarrow> (Return None, s)
      | Some r \<Rightarrow>
          if canceled r \<or> assets r = Some [] then (Return None, s)
          else
            (let s1 = safeSetState setProcessingImage True s
             in case extractAsset r of
                  None \<Rightarrow> (Return None, safeSetState setProcessingImage False s1)
                | Some a \<Rightarrow>
                    if smallEnough a then
                      (Return (Some a), safeSetState setProcessingImage False s1)
                    else
                      (let q = compressionQuality (fileSize a);
                           (w, h) = targetDimensions a
                       in (AwaitManipulate
                             \<lparr>reqUri = uri a, reqWidth = w, reqHeight = h, reqCompress = q\<rparr>,
                           s1))))"

definition processImage_resume ::
  "manipRequest \<Rightarrow> manipOutcome \<Rightarrow> screen \<Rightarrow> asset option \<times> screen \<times> effect list" where
  "processImage_resume rq out s =
     (case out of
        ManipThrows \<Rightarrow>
          if mountedRef s then
            (None, safeSetState setProcessingImage False s,
             [Alert ''Error'' ''Failed to process image''])
          else (None, s, [])
      | ManipResult m \<Rightarrow>
          (let m' = (if \<not> truthy_num (fileSize m) then
                       m\<lparr>fileSize :=
                           Some (estimatedSize (reqWidth rq) (reqHeight rq) (reqCompress rq))\<rparr>
                     else m)
           in if \<not> mountedRef s then (None, s, [])
              else (Some m', safeSetState setProcessingImage False s, [])))"

text \<open>
  The whole call: \<open>manipulateAsync\<close> is the image library's answer to a request, and
  \<open>during\<close> is what other handlers did to the screen while the call was pending
  (\<open>id\<close> when nothing happened).
\<close>

definition processImage ::
  "(manipRequest \<Rightarrow> manipOutcome) \<Rightarrow> (screen \<Rightarrow> screen) \<Rightarrow> imageResult option \<Rightarrow> screen
     \<Rightarrow> asset option \<times> screen \<times> effect list" where
  "processImage manipulateAsync during ir s =
     (case processImage_begin ir s of
        (Return res, s1) \<Rightarrow> (res, s1, [])
      | (AwaitManipulate rq, s1) \<Rightarrow>
          (case processImage_resume rq (manipulateAsync rq) (during s1) of
             (res, s2, es) \<Rightarrow> (res, s2, ManipulateAsync rq # es)))"

text \<open>
  \<^verbatim>\<open>takePicture\<close> and \<^verbatim>\<open>pickImage\<close> await the system camera or gallery first; the
  launcher either throws (with a message) or yields a result object (possibly none).
\<close>

datatype launchOutcome = LaunchThrows string | LaunchResult "imageResult option"

definition takePicture ::
  "launchOutcome \<Rightarrow> (manipRequest \<Rightarrow> manipOutcome) \<Rightarrow> (screen \<Rightarrow> screen) \<Rightarrow> (screen \<Rightarrow> screen)
     \<Rightarrow> screen \<Rightarrow> screen \<times> effect list" where
  "takePicture launch manipulateAsync duringLaunch duringManip s =
     (if isOperationInProgress s then (s, [])
      else
        (let s1 = duringLaunch s
         in case launch of
              LaunchThrows msg \<Rightarrow>
                if mountedRef s1 then (s1, [Alert ''Error'' (''Failed to take picture: '' @ msg)])
                else (s1, [])
            | LaunchResult ir \<Rightarrow>
                if \<not> mountedRef s1 then (s1, [])
                else
                  (case processImage manipulateAsync duringManip ir s1 of
                     (Some img, s2, es) \<Rightarrow>
                       if mountedRef s2 then (safeSetState setCapturedImage (Some img) s2, es)
                       else (s2, es)
                   | (None, s2, es) \<Rightarrow> (s2, es))))"

definition pickImage ::
  "launchOutcome \<Rightarrow> (manipRequest \<Rightarrow> manipOutcome) \<Rightarrow> (screen \<Rightarrow> screen) \<Rightarrow> (screen \<Rightarrow> screen)
     \<Rightarrow> screen \<Rightarrow> screen \<times> effect list" where
  "pickImage launch manipulateAsync duringLaunch duringManip s =
     (if isOperationInProgress s then (s, [])
      else
        (let s1 = duringLaunch s
         in case launch of
              LaunchThrows msg \<Rightarrow>
                if mountedRef s1 then
                  (s1, [Alert ''Error'' (''Failed to pick image from gallery: '' @ msg)])
                else (s1, [])
            | LaunchResult ir \<Rightarrow>
                if \<not> mountedRef s1 then (s1, [])
                else
                  (case processImage manipulateAsync duringManip ir s1 of
                     (Some img, s2, es) \<Rightarrow>
                       if mountedRef s2 then (safeSetState setCapturedImage (Some img) s2, es)
                       else (s2, es)
                   | (None, s2, es) \<Rightarrow> (s2, es))))"

section \<open>uploadImage\<close>

text \<open>
  The handler runs up to the request (\<open>uploadImage_begin\<close>; the flag says whether a
  request was issued) and resumes on the server's answer (\<open>uploadImage_resume\<close>).  The
  multipart form is represented by its two payloads: the captured image and the folder id.
\<close>

definition uploadImage_begin :: "screen \<Rightarrow> bool \<times> screen \<times> effect list" where
  "uploadImage_begin s =
     (case capturedImage s of
        None \<Rightarrow> (False, s, [Alert ''Error'' ''No image to upload''])
      | Some img \<Rightarrow>
          (case folderId s of
             None \<Rightarrow> (False, s, [Alert ''Error'' ''Folder ID is missing. Cannot upload image.''])
           | Some fid \<Rightarrow>
               if fid = 0 then
                 (False, s, [Alert ''Error'' ''Folder ID is missing. Cannot upload image.''])
               else if isOperationInProgress s then (False, s, [])
               else
                 (let s1 = safeSetState setLoading True s;
                      s2 = s1\<lparr>uploadingRef := True\<rparr>
                  in (True, s2, [UploadRequest img fid]))))"

definition uploadImage_resume :: "uploadOutcome \<Rightarrow> screen \<Rightarrow> screen \<times> effect list" where
  "uploadImage_resume out s =
     (case out of
        UploadOk \<Rightarrow>
          if \<not> mountedRef s then (s, [])
          else
            (let s1 = safeSetState setIsNavigating True s;
                 s2 = (if navigationTimeoutRef s1 \<noteq> None then s1\<lparr>navigationTimeoutRef := None\<rparr>
                       else s1)
             in (s2, [NavReplace ''FolderDetail'' (folderId s)]))
      | UploadFailed st \<Rightarrow>
          if \<not> mountedRef s then (s, [])
          else
            (resetAllStates s,
             [if st = Some 413 then
                Alert ''Image Too Large''
                  ''The image is still too large to upload. Please try using a different image.''
              else
                Alert ''Upload Failed'' ''Unable to save your image. Please try again later.'']))"

definition uploadImage :: "uploadOutcome \<Rightarrow> (screen \<Rightarrow> screen) \<Rightarrow> screen \<Rightarrow> screen \<times> effect list" where
  "uploadImage answer during s =
     (case uploadImage_begin s of
        (False, s1, es) \<Rightarrow> (s1, es)
      | (True, s1, es) \<Rightarrow>
          (case uploadImage_resume answer (during s1) of (s2, es2) \<Rightarrow> (s2, es @ es2)))"

section \<open>Safety timeout, mount and unmount\<close>

definition initialScreen :: "nat option \<Rightarrow> screen" where
  \<comment> \<open>the \<^verbatim>\<open>useState\<close>/\<^verbatim>\<open>useRef\<close> initial values, after the mount effect has run\<close>
  "initialScreen fid =
     \<lparr>capturedImage = None, loading = False, processingImage = False, isNavigating = False,
      uploadingRef = False, navigationTimeoutRef = None, mountedRef = True, folderId = fid\<rparr>"

definition unmount :: "screen \<Rightarrow> screen" where
  \<comment> \<open>the cleanups run on unmount: \<^verbatim>\<open>mountedRef\<close> is lowered and a pending timer is cleared\<close>
  "unmount s = s\<lparr>mountedRef := False, navigationTimeoutRef := None\<rparr>"

definition safetyTimeoutEffect :: "screen \<Rightarrow> screen" where
  \<comment> \<open>body of the effect; \<open>Some d\<close> in \<open>navigationTimeoutRef\<close> is a timer armed for \<open>d\<close> ms\<close>
  "safetyTimeoutEffect s =
     (if isNavigating s \<or> loading s \<or> processingImage s \<or> uploadingRef s then
        s\<lparr>navigationTimeoutRef := Some SAFETY_TIMEOUT\<rparr>
      else s)"

definition safetyTimeoutCleanup :: "screen \<Rightarrow> screen" where
  "safetyTimeoutCleanup s =
     (if navigationTimeoutRef s \<noteq> None then s\<lparr>navigationTimeoutRef := None\<rparr> else s)"

definition safetyTimeoutFired :: "screen \<Rightarrow> screen \<times> effect list" where
  \<comment> \<open>the timer's callback: it logs and calls \<^verbatim>\<open>resetAllStates\<close>, nothing else\<close>
  "safetyTimeoutFired s = (resetAllStates s, [])"

section \<open>services/api/client.js: the interceptors\<close>

text \<open>
  The secure store is a finite map from keys to strings.  A request configuration carries
  its URL and its headers; an error carries the response, when the server sent one.
  Reading the token is taken to succeed (a failing read issues no request at all).
  Deleting it is awaited without a handler, so it has two outcomes: it succeeds, or it
  rejects with a message, the store staying as it was; the interceptor's promise is then
  rejected with the store's failure.
\<close>

type_synonym secureStore = "string \<rightharpoonup> string"

record requestConfig =
  url :: "string option"
  headers :: "string \<rightharpoonup> string"

record httpResponse =
  status :: nat

record apiError =
  response :: "httpResponse option"
  message :: string

datatype storeOutcome = StoreOk | StoreRejects string

datatype failure = RequestError apiError | StorageError string

datatype 'a promise = Resolved 'a | Rejected failure

definition fixEndpointPath :: "string \<Rightarrow> string" where
  "fixEndpointPath path =
     (case path of
        c # rest \<Rightarrow> if c = CHR ''/'' then rest else path
      | [] \<Rightarrow> path)"

definition requestInterceptor :: "secureStore \<Rightarrow> requestConfig \<Rightarrow> requestConfig" where
  "requestInterceptor store config =
     (let c1 = (case url config of
                  Some u \<Rightarrow> if u \<noteq> [] then config\<lparr>url := Some (fixEndpointPath u)\<rparr> else config
                | None \<Rightarrow> config)
      in case store ''token'' of
           Some token \<Rightarrow>
             if token \<noteq> [] then
               c1\<lparr>headers := (headers c1)(''Authorization'' \<mapsto> ''Bearer '' @ token)\<rparr>
             else c1
         | None \<Rightarrow> c1)"

definition responseErrorInterceptor ::
  "storeOutcome \<Rightarrow> secureStore \<Rightarrow> apiError \<Rightarrow> secureStore \<times> httpResponse promise" where
  "responseErrorInterceptor deleteItemAsync store err =
     (case response err of
        Some r \<Rightarrow>
          if status r = 401 then
            (case deleteItemAsync of
               StoreOk \<Rightarrow> (store(''token'' := None), Rejected (RequestError err))
             | StoreRejects e \<Rightarrow> (store, Rejected (StorageError e)))
          else (store, Rejected (RequestError err))
      | None \<Rightarrow> (store, Rejected (RequestError err)))"

section \<open>Sample environments\<close>

definition pickerResult :: "asset list \<Rightarrow> imageResult" where
  \<comment> \<open>the picker's answer in the current format: not cancelled, a list of assets\<close>
  "pickerResult as =
     \<lparr>canceled = False, assets = Some as, ownUri = None, ownFileSize = None,
      ownWidth = None, ownHeight = None\<rparr>"

definition manipulatorReporting :: "nat option \<Rightarrow> manipRequest \<Rightarrow> manipOutcome" where
  \<comment> \<open>an image library that writes the resized file and reports the size \<open>sz\<close>, if any\<close>
  "manipulatorReporting sz rq =
     ManipResult \<lparr>uri = ''file:///cache/resized.jpg'', fileSize = sz,
                  width = Some (reqWidth rq), height = Some (reqHeight rq)\<rparr>"

definition manipulatorFailing :: "manipRequest \<Rightarrow> manipOutcome" where
  "manipulatorFailing rq = ManipThrows"

section \<open>Rounding and size bounds\<close>

lemma floor_rat_numeral_div:
  "\<lfloor>numeral a / numeral b :: rat\<rfloor> = numeral a div numeral b"
  using floor_divide_of_int_eq [of "numeral a" "numeral b", where ?'a = rat] by simp

lemma Math_round_div:
  assumes "0 < b"
  shows "Math_round (of_nat a / of_nat b) = int ((2 * a + b) div (2 * b))"
proof -
  have "(of_nat a / of_nat b + 1 / 2 :: rat) = of_nat (2 * a + b) / of_nat (2 * b)"
    using assms by (simp add: field_simps)
  then show ?thesis
    unfolding Math_round_def by (simp only: floor_divide_of_nat_eq)
qed

lemma scaled_le:
  assumes "a \<le> b" and "0 < b"
  shows "nat (Math_round (of_nat (a * 1200) / of_nat b)) \<le> 1200"
proof -
  have eq: "Math_round (of_nat (a * 1200) / of_nat b) = int ((2 * (a * 1200) + b) div (2 * b))"
    by (rule Math_round_div [OF assms(2)])
  have "2 * (a * 1200) + b \<le> 1200 * (2 * b) + b"
    using assms by simp
  then have "(2 * (a * 1200) + b) div (2 * b) \<le> (1200 * (2 * b) + b) div (2 * b)"
    by (rule div_le_mono)
  also have "\<dots> = 1200"
    using assms by simp
  finally show ?thesis
    unfolding eq by simp
qed

lemma targetDimensions_le:
  "fst (targetDimensions a) \<le> 1200 \<and> snd (targetDimensions a) \<le> 1200"
proof -
  define w where "w = or_default (width a) 1000"
  define h where "h = or_default (height a) 1000"
  show ?thesis
  proof (cases "w > h \<and> w > 1200")
    case True
    then have "nat (Math_round (of_nat (h * 1200) / of_nat w)) \<le> 1200"
      by (intro scaled_le) simp_all
    with True show ?thesis
      by (simp add: targetDimensions_def MAX_DIMENSION_def w_def h_def Let_def)
  next
    case False
    show ?thesis
    proof (cases "h > 1200")
      case True
      with False have "w \<le> h" by simp
      with True have "nat (Math_round (of_nat (w * 1200) / of_nat h)) \<le> 1200"
        by (intro scaled_le) simp_all
      with True False show ?thesis
        by (simp add: targetDimensions_def MAX_DIMENSION_def w_def h_def Let_def)
    next
      case h: False
      with False show ?thesis
        by (auto simp add: targetDimensions_def MAX_DIMENSION_def w_def h_def Let_def)
    qed
  qed
qed

lemma compressionQuality_range:
  "0 \<le> compressionQuality fs \<and> compressionQuality fs \<le> 7 / 10"
  by (simp add: compressionQuality_def)

lemma bit_length_upper: "n < 2 ^ bit_length n"
proof (induction n rule: bit_length.induct)
  case (1 n)
  show ?case
  proof (cases "n = 0")
    case True
    then show ?thesis by (simp add: bit_length.simps)
  next
    case False
    with 1 have "n div 2 < 2 ^ bit_length (n div 2)" by simp
    then have "n < 2 * 2 ^ bit_length (n div 2)" by linarith
    with False show ?thesis by (simp add: bit_length.simps [of n])
  qed
qed

lemma bit_length_lower: "0 < n \<Longrightarrow> 2 ^ (bit_length n - 1) \<le> n"
proof (induction n rule: bit_length.induct)
  case (1 n)
  then have n: "n \<noteq> 0" by simp
  show ?case
  proof (cases "n div 2 = 0")
    case True
    then show ?thesis
      using n by (simp add: bit_length.simps [of n] bit_length.simps [of 0])
  next
    case False
    with 1 n have "2 ^ (bit_length (n div 2) - 1) \<le> n div 2" by simp
    then have "2 * 2 ^ (bit_length (n div 2) - 1) \<le> n" by linarith
    moreover have "0 < bit_length (n div 2)"
      using False by (simp add: bit_length.simps [of "n div 2"])
    then have "2 * (2::nat) ^ (bit_length (n div 2) - 1) = 2 ^ bit_length (n div 2)"
      by (cases "bit_length (n div 2)") simp_all
    ultimately show ?thesis
      using n by (simp add: bit_length.simps [of n])
  qed
qed

lemma binade_lower:
  assumes "0 < x"
  shows "2 powi binade x \<le> x"
proof (cases "1 \<le> x")
  case True
  define n where "n = nat \<lfloor>x\<rfloor>"
  have n: "0 < n" using True by (simp add: n_def)
  have nx: "rat_of_nat n \<le> x"
    using True by (simp add: n_def)
  have "rat_of_nat (2 ^ (bit_length n - 1)) \<le> rat_of_nat n"
    by (rule of_nat_mono) (rule bit_length_lower [OF n])
  then have "(2::rat) ^ (bit_length n - 1) \<le> rat_of_nat n"
    by simp
  with nx have "(2::rat) ^ (bit_length n - 1) \<le> x"
    by linarith
  moreover have "0 < bit_length n"
    using n by (simp add: bit_length.simps [of n])
  then have "int (bit_length n) - 1 = int (bit_length n - 1)" by simp
  ultimately show ?thesis
    using True by (simp add: binade_def n_def [symmetric] power_int_of_nat del: of_nat_diff)
next
  case False
  define n where "n = nat \<lfloor>1 / x\<rfloor>"
  define e0 where "e0 = - int (bit_length n)"
  show ?thesis
  proof (cases "2 powi (e0 + 1) \<le> x")
    case True
    with False show ?thesis
      by (simp add: binade_def n_def [symmetric] e0_def [symmetric] Let_def)
  next
    case no: False
    have "1 / x < of_int \<lfloor>1 / x\<rfloor> + 1" by linarith
    moreover have "0 \<le> \<lfloor>1 / x\<rfloor>" using assms by simp
    then have "of_int \<lfloor>1 / x\<rfloor> = rat_of_nat n" by (simp add: n_def)
    ultimately have "1 / x < rat_of_nat (n + 1)" by simp
    also have "rat_of_nat (n + 1) \<le> rat_of_nat (2 ^ bit_length n)"
      using bit_length_upper [of n] by (simp only: of_nat_le_iff)
    finally have "1 / x < 2 ^ bit_length n" by simp
    then have "1 / 2 ^ bit_length n \<le> x"
      using assms by (simp add: field_simps)
    then have "2 powi e0 \<le> x"
      by (simp add: e0_def power_int_minus power_int_of_nat field_simps)
    with False no show ?thesis
      by (simp add: binade_def n_def [symmetric] e0_def [symmetric] Let_def)
  qed
qed

lemma round_half_even_upper: "of_int (round_half_even y) \<le> y + 1 / 2"
proof -
  define f where "f = \<lfloor>y\<rfloor>"
  have fy: "of_int f \<le> y"
    unfolding f_def by (rule of_int_floor_le)
  have "round_half_even y = f \<or> (round_half_even y = f + 1 \<and> 1 / 2 \<le> y - of_int f)"
    by (auto simp add: round_half_even_def Let_def f_def)
  then show ?thesis
  proof
    assume "round_half_even y = f"
    with fy show ?thesis by simp
  next
    assume "round_half_even y = f + 1 \<and> 1 / 2 \<le> y - of_int f"
    then show ?thesis by simp
  qed
qed

lemma round_half_even_nonneg: "0 \<le> y \<Longrightarrow> 0 \<le> round_half_even y"
  by (auto simp add: round_half_even_def Let_def)

lemma double_pos_upper:
  assumes "0 < x"
  shows "double_pos x \<le> x * (1 + 1 / 2 ^ 53)"
proof -
  define u :: rat where "u = 2 powi (binade x - 52)"
  have u: "0 < u" by (simp add: u_def)
  have "u = 2 powi binade x / 2 ^ 52"
    by (simp add: u_def power_int_diff)
  with binade_lower [OF assms] have ux: "u \<le> x / 2 ^ 52"
    by (simp add: divide_right_mono)
  have "of_int (round_half_even (x / u)) * u \<le> (x / u + 1 / 2) * u"
    using u round_half_even_upper [of "x / u"] by (intro mult_right_mono) simp_all
  also have "\<dots> = x + u / 2"
    using u by (simp add: field_simps)
  also have "\<dots> \<le> x + (x / 2 ^ 52) / 2"
    using ux by simp
  also have "\<dots> = x * (1 + 1 / 2 ^ 53)"
    by (simp add: field_simps)
  finally show ?thesis
    by (simp add: double_pos_def u_def Let_def)
qed

lemma to_double_upper: "0 \<le> x \<Longrightarrow> to_double x \<le> x * (1 + 1 / 2 ^ 53)"
  using double_pos_upper [of x] by (auto simp add: to_double_def)

lemma to_double_nonneg: "0 \<le> x \<Longrightarrow> 0 \<le> to_double x"
proof -
  assume "0 \<le> x"
  have "0 < x \<Longrightarrow> 0 \<le> double_pos x"
    by (simp add: double_pos_def Let_def round_half_even_nonneg)
  with \<open>0 \<le> x\<close> show ?thesis by (auto simp add: to_double_def)
qed


lemma to_double_mult_upper:
  assumes "0 \<le> a" and "a \<le> a'" and "0 \<le> b" and "b \<le> b'"
  shows "0 \<le> to_double (a * b) \<and> to_double (a * b) \<le> a' * b' * (1 + 1 / 2 ^ 53)"
proof -
  have nonneg: "0 \<le> a * b"
    using assms(1,3) by simp
  have "a * b \<le> a' * b'"
    by (rule mult_mono) (use assms in simp_all)
  then have "a * b * (1 + 1 / 2 ^ 53) \<le> a' * b' * (1 + 1 / 2 ^ 53)"
    by (rule mult_right_mono) simp
  with to_double_upper [OF nonneg] to_double_nonneg [OF nonneg] show ?thesis
    by linarith
qed

lemma estimatedSize_le:
  assumes "w \<le> 1200" and "h \<le> 1200" and "0 \<le> q" and "q \<le> 7 / 10"
  shows "estimatedSize w h q \<le> 151200"
proof -
  define k :: rat where "k = 1 + 1 / 2 ^ 53"
  define A where "A = to_double (of_nat w * of_nat h)"
  define Q where "Q = to_double q"
  define B where "B = to_double (A * Q)"
  define C :: rat where "C = to_double (15 / 100)"
  define D where "D = to_double (B * C)"
  have k: "0 \<le> k" by (simp add: k_def)
  have A: "0 \<le> A \<and> A \<le> 1200 * 1200 * k"
    unfolding A_def k_def using assms(1,2) by (intro to_double_mult_upper) simp_all
  have Q: "0 \<le> Q \<and> Q \<le> 7 / 10 * k"
  proof -
    have "q * k \<le> 7 / 10 * k"
      using assms(4) k by (rule mult_right_mono)
    with to_double_upper [OF assms(3)] to_double_nonneg [OF assms(3)] show ?thesis
      by (simp add: Q_def k_def)
  qed
  have B: "0 \<le> B \<and> B \<le> (1200 * 1200 * k) * (7 / 10 * k) * k"
    unfolding B_def using A Q to_double_mult_upper [of A "1200 * 1200 * k" Q "7 / 10 * k"]
    by (simp add: k_def)
  have C: "0 \<le> C \<and> C \<le> 15 / 100 * k"
    using to_double_upper [of "15 / 100"] to_double_nonneg [of "15 / 100"]
    by (simp add: C_def k_def)
  have D: "D \<le> ((1200 * 1200 * k) * (7 / 10 * k) * k) * (15 / 100 * k) * k"
    unfolding D_def
    using B C to_double_mult_upper [of B "(1200 * 1200 * k) * (7 / 10 * k) * k" C "15 / 100 * k"]
    by (simp add: k_def)
  have "((1200 * 1200 * k) * (7 / 10 * k) * k) * (15 / 100 * k) * k = 151200 * k ^ 5"
    by (simp add: power_def)
  moreover have "151200 * k ^ 5 + 1 / 2 < 151201"
    by (simp add: k_def power_divide)
  ultimately have "D + 1 / 2 < 151201"
    using D by linarith
  then have "\<lfloor>D + 1 / 2\<rfloor> < 151201"
    by (simp add: floor_less_iff)
  then show ?thesis
    unfolding estimatedSize_def Math_round_def D_def B_def A_def Q_def C_def by linarith
qed

lemmas to_double_eval =
  to_double_def double_pos_def binade_def round_half_even_def bit_length.simps Let_def

text \<open>
  The doubles of the three quality literals and of the factor, and an estimate at a tie:
  the exact product \<open>900 * 201 * 7 / 10 * 15 / 100\<close> is 18994.5, the product of the
  doubles lies just below it.
\<close>

lemma to_double_literals:
  "to_double (5 / 10) = 1 / 2"
  "to_double (6 / 10) = 5404319552844595 / 9007199254740992"
  "to_double (7 / 10) = 3152519739159347 / 4503599627370496"
  "to_double (15 / 100) = 5404319552844595 / 36028797018963968"
  by (simp_all add: to_double_eval floor_rat_numeral_div)

lemma estimatedSize_at_tie: "estimatedSize 900 201 (7 / 10) = 18994"
  by (simp add: estimatedSize_def to_double_eval floor_rat_numeral_div Math_round_def)

lemma safeSetState_processing_twice:
  "safeSetState setProcessingImage False (safeSetState setProcessingImage True s)
     = safeSetState setProcessingImage False s"
  by (simp add: safeSetState_def setProcessingImage_def)

lemma processImage_begin_small:
  assumes "\<not> canceled r" and "assets r \<noteq> Some []" and "extractAsset r = Some a"
    and "smallEnough a"
  shows "processImage_begin (Some r) s = (Return (Some a), safeSetState setProcessingImage False s)"
  using assms by (simp add: processImage_begin_def safeSetState_processing_twice)

lemma processImage_begin_large:
  assumes "\<not> canceled r" and "assets r \<noteq> Some []" and "extractAsset r = Some a"
    and "\<not> smallEnough a"
  shows "processImage_begin (Some r) s =
           (AwaitManipulate \<lparr>reqUri = uri a, reqWidth = fst (targetDimensions a),
                             reqHeight = snd (targetDimensions a),
                             reqCompress = compressionQuality (fileSize a)\<rparr>,
            safeSetState setProcessingImage True s)"
  using assms by (simp add: processImage_begin_def split_beta)

lemma Math_round_div_close:
  assumes "0 < b"
  shows "2 * \<bar>Math_round (of_nat a / of_nat b) * int b - int a\<bar> \<le> int b"
proof -
  define r where "r = (2 * a + b) div (2 * b)"
  define m where "m = (2 * a + b) mod (2 * b)"
  have eq: "2 * a + b = 2 * b * r + m"
    unfolding r_def m_def by simp
  have m: "m < 2 * b"
    unfolding m_def using assms by simp
  have "Math_round (of_nat a / of_nat b) = int r"
    unfolding r_def by (rule Math_round_div [OF assms])
  moreover have "2 * \<bar>int r * int b - int a\<bar> \<le> int b"
  proof -
    define p where "p = int r * int b"
    have "int (2 * a + b) = int (2 * b * r + m)"
      using eq by (rule arg_cong)
    then have "2 * int a + int b = 2 * p + int m"
      by (simp add: p_def mult.commute)
    moreover have "int m < 2 * int b" using m by simp
    moreover have "0 \<le> int m" by simp
    ultimately have "2 * (p - int a) \<le> int b \<and> 2 * (int a - p) \<le> int b" by simp
    then have "2 * \<bar>p - int a\<bar> \<le> int b" by (auto simp add: abs_if)
    then show ?thesis by (simp add: p_def)
  qed
  ultimately show ?thesis by simp
qed

lemma over_threshold_not_small:
  assumes "fileSize a = Some n" and "1900000 \<le> n"
  shows "\<not> smallEnough a"
  using assms by (simp add: smallEnough_def js_lt_def MAX_IMAGE_SIZE_def)

lemma targetDimensions_landscape:
  assumes "width a = Some w" and "height a = Some h" and "0 < h" and "h < w" and "1200 < w"
  shows "targetDimensions a = (1200, nat (Math_round (of_nat (h * 1200) / of_nat w)))"
  using assms by (simp add: targetDimensions_def or_default_def MAX_DIMENSION_def)

lemma targetDimensions_portrait:
  assumes "width a = Some w" and "height a = Some h" and "0 < w" and "w \<le> h" and "1200 < h"
  shows "targetDimensions a = (nat (Math_round (of_nat (w * 1200) / of_nat h)), 1200)"
  using assms by (simp add: targetDimensions_def or_default_def MAX_DIMENSION_def)

lemma Math_round_nonneg: "0 \<le> x \<Longrightarrow> 0 \<le> Math_round x"
  by (simp add: Math_round_def)

lemma scaled_close:
  assumes "0 < b"
  shows "2 * \<bar>int (nat (Math_round (of_nat (a * 1200) / of_nat b))) * int b - int a * 1200\<bar> \<le> int b"
proof -
  have "0 \<le> Math_round (of_nat (a * 1200) / of_nat b)"
    by (rule Math_round_nonneg) simp
  then have "int (nat (Math_round (of_nat (a * 1200) / of_nat b))) = Math_round (of_nat (a * 1200) / of_nat b)"
    by simp
  moreover have "2 * \<bar>Math_round (of_nat (a * 1200) / of_nat b) * int b - int (a * 1200)\<bar> \<le> int b"
    by (rule Math_round_div_close [OF assms])
  ultimately show ?thesis by simp
qed

lemma processImage_throws:
  assumes "processImage_begin ir s = (AwaitManipulate rq, s1)"
    and "manipulateAsync rq = ManipThrows"
  shows "processImage manipulateAsync during ir s =
           (if mountedRef (during s1) then
              (None, (during s1)\<lparr>processingImage := False\<rparr>,
               [ManipulateAsync rq, Alert ''Error'' ''Failed to process image''])
            else (None, during s1, [ManipulateAsync rq]))"
  using assms
  by (simp add: processImage_def processImage_resume_def safeSetState_def setProcessingImage_def)

lemma processImage_begin_await_state:
  assumes "processImage_begin ir s = (AwaitManipulate rq, s1)"
  shows "s1 = safeSetState setProcessingImage True s"
  using assms
  by (auto simp add: processImage_begin_def Let_def split_beta
      split: option.splits if_splits)

section \<open>Guards and resets\<close>

lemma uploadImage_begin_guarded:
  assumes "isOperationInProgress s"
  shows "uploadImage_begin s =
           (False, s,
            if capturedImage s = None then [Alert ''Error'' ''No image to upload'']
            else if \<not> truthy_num (folderId s) then
              [Alert ''Error'' ''Folder ID is missing. Cannot upload image.'']
            else [])"
  using assms
  by (simp add: uploadImage_begin_def truthy_num_def split: option.splits)

lemma uploadImage_begin_issued:
  assumes "fst (uploadImage_begin s)"
  shows "\<exists>img fid. capturedImage s = Some img \<and> folderId s = Some fid \<and> fid \<noteq> 0
           \<and> uploadImage_begin s
               = (True, (safeSetState setLoading True s)\<lparr>uploadingRef := True\<rparr>,
                  [UploadRequest img fid])"
  using assms
  by (auto simp add: uploadImage_begin_def Let_def split: option.splits if_splits)

lemma uploadImage_second_call:
  assumes "fst (uploadImage_begin s)"
  shows "uploadImage answer during (fst (snd (uploadImage_begin s)))
           = (fst (snd (uploadImage_begin s)), [])"
proof -
  from assms obtain img fid where
    c: "capturedImage s = Some img" and f: "folderId s = Some fid" and nz: "fid \<noteq> 0"
    and b: "uploadImage_begin s
             = (True, (safeSetState setLoading True s)\<lparr>uploadingRef := True\<rparr>,
                [UploadRequest img fid])"
    using uploadImage_begin_issued by blast
  define s1 where "s1 = (safeSetState setLoading True s)\<lparr>uploadingRef := True\<rparr>"
  have busy: "isOperationInProgress s1"
    by (simp add: s1_def isOperationInProgress_def)
  have c1: "capturedImage s1 = Some img"
    using c by (simp add: s1_def safeSetState_def setLoading_def)
  have f1: "folderId s1 = Some fid"
    using f by (simp add: s1_def safeSetState_def setLoading_def)
  have "uploadImage answer during s1 = (s1, [])"
    using c1 f1 nz by (simp add: uploadImage_def uploadImage_begin_guarded [OF busy] truthy_num_def)
  then show ?thesis
    by (simp add: b s1_def)
qed

lemma resetAllStates_mounted:
  assumes "mountedRef s"
  shows "resetAllStates s =
           s\<lparr>isNavigating := False, loading := False, processingImage := False,
             uploadingRef := False, navigationTimeoutRef := None\<rparr>"
  using assms
  by (cases s)
    (auto simp add: resetAllStates_def safeSetState_def setIsNavigating_def setLoading_def
      setProcessingImage_def Let_def)

lemma unmount_clears_timer:
  "navigationTimeoutRef (unmount s) = None \<and> \<not> mountedRef (unmount s)"
  by (simp add: unmount_def)

section \<open>Compression quality\<close>

lemma compressionQuality_values:
  "compressionQuality (Some n) =
     (if 5000000 < n then 1 / 2 else if 3000000 < n then 3 / 5 else 7 / 10)"
  by (simp add: compressionQuality_def js_gt_def)

text \<open>
  C6: the compression quality is a non-increasing function of the file size; it is 0.5
  above 5,000,000 bytes, 0.6 above 3,000,000 bytes (up to 5,000,000) and 0.7 otherwise.
\<close>

theorem compressionQuality_antimono:
  "(m \<le> n \<longrightarrow> compressionQuality (Some n) \<le> compressionQuality (Some m))
   \<and> (5000000 < n \<longrightarrow> compressionQuality (Some n) = 5 / 10)
   \<and> (3000000 < n \<and> n \<le> 5000000 \<longrightarrow> compressionQuality (Some n) = 6 / 10)
   \<and> (n \<le> 3000000 \<longrightarrow> compressionQuality (Some n) = 7 / 10)"
  by (simp add: compressionQuality_values)

theorem compressionQuality_antimono_witness:
  "(2000000::nat) \<le> 6000000
   \<and> compressionQuality (Some 6000000) \<le> compressionQuality (Some 2000000)
   \<and> compressionQuality (Some 6000000) = 5 / 10
   \<and> compressionQuality (Some 4000000) = 6 / 10
   \<and> compressionQuality (Some 2000000) = 7 / 10"
  using compressionQuality_antimono [of 2000000 6000000]
    compressionQuality_antimono [of 0 4000000]
    compressionQuality_antimono [of 0 2000000]
  by simp

section \<open>Assets below the size threshold\<close>

text \<open>
  C1 (as amended): for an input asset whose \<open>fileSize\<close> is known, non-zero and below
  1,900,000 bytes, \<open>processImage\<close> returns that asset unchanged and invokes no
  resize/compress operation, whatever the image library or concurrent handlers would do.
\<close>

theorem processImage_small_asset_unchanged:
  assumes "\<not> canceled r" and "assets r \<noteq> Some []" and "extractAsset r = Some a"
    and "fileSize a = Some n" and "0 < n" and "n < 1900000"
  shows "processImage manipulateAsync during (Some r) s
           = (Some a, safeSetState setProcessingImage False s, [])"
proof -
  have "smallEnough a"
    using assms(4-6) by (simp add: smallEnough_def truthy_num_def js_lt_def MAX_IMAGE_SIZE_def)
  with assms(1-3) show ?thesis
    by (simp add: processImage_def processImage_begin_small)
qed

theorem processImage_small_asset_unchanged_witness:
  "\<not> canceled (pickerResult [\<lparr>uri = ''file:///photo.jpg'', fileSize = Some 1500000,
                                 width = Some 4000, height = Some 3000\<rparr>])
   \<and> extractAsset (pickerResult [\<lparr>uri = ''file:///photo.jpg'', fileSize = Some 1500000,
                                   width = Some 4000, height = Some 3000\<rparr>])
       = Some \<lparr>uri = ''file:///photo.jpg'', fileSize = Some 1500000,
               width = Some 4000, height = Some 3000\<rparr>
   \<and> (0::nat) < 1500000 \<and> (1500000::nat) < 1900000
   \<and> processImage (manipulatorReporting None) id
         (Some (pickerResult [\<lparr>uri = ''file:///photo.jpg'', fileSize = Some 1500000,
                                width = Some 4000, height = Some 3000\<rparr>]))
         (initialScreen (Some 1))
       = (Some \<lparr>uri = ''file:///photo.jpg'', fileSize = Some 1500000,
                width = Some 4000, height = Some 3000\<rparr>,
          initialScreen (Some 1), [])"
  using processImage_small_asset_unchanged
    [of "pickerResult [\<lparr>uri = ''file:///photo.jpg'', fileSize = Some 1500000,
                         width = Some 4000, height = Some 3000\<rparr>]"
        "\<lparr>uri = ''file:///photo.jpg'', fileSize = Some 1500000,
          width = Some 4000, height = Some 3000\<rparr>"
        1500000 "manipulatorReporting None" id "initialScreen (Some 1)"]
  by (simp add: pickerResult_def extractAsset_def initialScreen_def safeSetState_def
      setProcessingImage_def)

text \<open>
  The claim as first stated also covers a known size of 0 bytes.  That value is falsy in
  the guard \<^verbatim>\<open>imageAsset.fileSize && imageAsset.fileSize < MAX_IMAGE_SIZE\<close>, so such an
  asset is resized like an oversized one and a different asset is returned.
\<close>

theorem processImage_zero_size_counterexample:
  "fileSize \<lparr>uri = ''file:///photo.jpg'', fileSize = Some 0,
             width = Some 800, height = Some 600\<rparr> = Some 0
   \<and> (0::nat) < 1900000
   \<and> processImage (manipulatorReporting None) id
         (Some (pickerResult [\<lparr>uri = ''file:///photo.jpg'', fileSize = Some 0,
                                width = Some 800, height = Some 600\<rparr>]))
         (initialScreen (Some 1))
       = (Some \<lparr>uri = ''file:///cache/resized.jpg'', fileSize = Some 50400,
                width = Some 800, height = Some 600\<rparr>,
          initialScreen (Some 1),
          [ManipulateAsync \<lparr>reqUri = ''file:///photo.jpg'', reqWidth = 800, reqHeight = 600,
                            reqCompress = 7 / 10\<rparr>])"
  by (simp add: processImage_def processImage_begin_def processImage_resume_def pickerResult_def
      extractAsset_def smallEnough_def truthy_num_def js_lt_def js_gt_def compressionQuality_def
      targetDimensions_def or_default_def MAX_DIMENSION_def MAX_IMAGE_SIZE_def estimatedSize_def
      to_double_eval Math_round_def floor_rat_numeral_div manipulatorReporting_def
      initialScreen_def safeSetState_def setProcessingImage_def)

section \<open>Target dimensions\<close>

text \<open>
  C2 (as amended): for an over-threshold asset whose width and height are known and
  non-zero and whose longer side exceeds 1200 px, the resize request sets the longer side
  to exactly 1200 and the other side to round(other * 1200 / longer): width 1200 when
  width > height and width > 1200, height 1200 when height >= width and height > 1200.
  The aspect ratio is kept up to rounding: the scaled side times the original longer side
  differs from the original other side times 1200 by at most half the longer side.
\<close>

theorem processImage_scales_longer_side:
  assumes "\<not> canceled r" and "assets r \<noteq> Some []" and "extractAsset r = Some a"
    and "fileSize a = Some n" and "1900000 \<le> n"
    and "width a = Some w" and "height a = Some h" and "0 < w" and "0 < h"
  shows "(h < w \<and> 1200 < w \<longrightarrow>
            (let th = nat (Math_round (of_nat (h * 1200) / of_nat w))
             in fst (processImage_begin (Some r) s)
                  = AwaitManipulate \<lparr>reqUri = uri a, reqWidth = 1200, reqHeight = th,
                                      reqCompress = compressionQuality (Some n)\<rparr>
                \<and> 2 * \<bar>int th * int w - int h * 1200\<bar> \<le> int w))
       \<and> (w \<le> h \<and> 1200 < h \<longrightarrow>
            (let tw = nat (Math_round (of_nat (w * 1200) / of_nat h))
             in fst (processImage_begin (Some r) s)
                  = AwaitManipulate \<lparr>reqUri = uri a, reqWidth = tw, reqHeight = 1200,
                                      reqCompress = compressionQuality (Some n)\<rparr>
                \<and> 2 * \<bar>int tw * int h - int w * 1200\<bar> \<le> int h))"
proof -
  have large: "\<not> smallEnough a"
    using assms(4,5) by (rule over_threshold_not_small)
  note start = processImage_begin_large [OF assms(1-3) large, of s]
  have landscape: "h < w \<and> 1200 < w \<Longrightarrow> targetDimensions a = (1200, nat (Math_round (of_nat (h * 1200) / of_nat w)))"
    using assms(6,7,9) by (simp add: targetDimensions_landscape)
  have portrait: "w \<le> h \<and> 1200 < h \<Longrightarrow> targetDimensions a = (nat (Math_round (of_nat (w * 1200) / of_nat h)), 1200)"
    using assms(6,7,8) by (simp add: targetDimensions_portrait)
  show ?thesis
    unfolding Let_def
    using start landscape portrait scaled_close [OF assms(8), of h] scaled_close [OF assms(9), of w] assms(4)
    by auto
qed

theorem processImage_scales_longer_side_witness:
  "(0::nat) < 4000 \<and> (0::nat) < 3000 \<and> (3000::nat) < 4000 \<and> (1200::nat) < 4000
   \<and> (1900000::nat) \<le> 4000000
   \<and> fst (processImage_begin
            (Some (pickerResult [\<lparr>uri = ''file:///wide.jpg'', fileSize = Some 4000000,
                                   width = Some 4000, height = Some 3000\<rparr>]))
            (initialScreen (Some 1)))
       = AwaitManipulate \<lparr>reqUri = ''file:///wide.jpg'', reqWidth = 1200, reqHeight = 900,
                           reqCompress = 6 / 10\<rparr>
   \<and> fst (processImage_begin
            (Some (pickerResult [\<lparr>uri = ''file:///tall.jpg'', fileSize = Some 4000000,
                                   width = Some 3000, height = Some 4000\<rparr>]))
            (initialScreen (Some 1)))
       = AwaitManipulate \<lparr>reqUri = ''file:///tall.jpg'', reqWidth = 900, reqHeight = 1200,
                           reqCompress = 6 / 10\<rparr>"
  using processImage_scales_longer_side
    [of "pickerResult [\<lparr>uri = ''file:///wide.jpg'', fileSize = Some 4000000,
                         width = Some 4000, height = Some 3000\<rparr>]"
        "\<lparr>uri = ''file:///wide.jpg'', fileSize = Some 4000000,
          width = Some 4000, height = Some 3000\<rparr>"
        4000000 4000 3000 "initialScreen (Some 1)"]
    processImage_scales_longer_side
    [of "pickerResult [\<lparr>uri = ''file:///tall.jpg'', fileSize = Some 4000000,
                         width = Some 3000, height = Some 4000\<rparr>]"
        "\<lparr>uri = ''file:///tall.jpg'', fileSize = Some 4000000,
          width = Some 3000, height = Some 4000\<rparr>"
        4000000 3000 4000 "initialScreen (Some 1)"]
  by (simp add: pickerResult_def extractAsset_def compressionQuality_values Math_round_def
      floor_rat_numeral_div)

text \<open>
  The claim as first stated also covers a known dimension of 0.  \<^verbatim>\<open>imageAsset.width || 1000\<close>
  replaces it by 1000 before scaling, so a 0 x 2000 asset is resized to 600 x 1200 and not
  to round(0 * 1200 / 2000) = 0 by 1200.
\<close>

theorem processImage_zero_width_counterexample:
  "width \<lparr>uri = ''file:///tall.jpg'', fileSize = Some 2000000,
          width = Some 0, height = Some 2000\<rparr> = Some 0
   \<and> height \<lparr>uri = ''file:///tall.jpg'', fileSize = Some 2000000,
             width = Some 0, height = Some 2000\<rparr> = Some 2000
   \<and> (0::nat) \<le> 2000 \<and> (1200::nat) < 2000 \<and> (1900000::nat) \<le> 2000000
   \<and> nat (Math_round (of_nat (0 * 1200) / of_nat 2000)) = 0
   \<and> fst (processImage_begin
            (Some (pickerResult [\<lparr>uri = ''file:///tall.jpg'', fileSize = Some 2000000,
                                   width = Some 0, height = Some 2000\<rparr>]))
            (initialScreen (Some 1)))
       = AwaitManipulate \<lparr>reqUri = ''file:///tall.jpg'', reqWidth = 600, reqHeight = 1200,
                           reqCompress = 7 / 10\<rparr>"
  by (simp add: processImage_begin_def pickerResult_def extractAsset_def smallEnough_def
      truthy_num_def js_lt_def js_gt_def compressionQuality_def targetDimensions_def
      or_default_def MAX_DIMENSION_def MAX_IMAGE_SIZE_def Math_round_def floor_rat_numeral_div)

text \<open>
  C9: for an over-threshold asset whose width and height are both missing, the default
  1000 is used for each dimension and the resize request is exactly 1000 x 1000; the
  request is part of what \<open>processImage\<close> does, whatever the library answers.
\<close>

theorem processImage_missing_dimensions_default:
  assumes "\<not> canceled r" and "assets r \<noteq> Some []" and "extractAsset r = Some a"
    and "fileSize a = Some n" and "1900000 \<le> n"
    and "width a = None" and "height a = None"
  shows "fst (processImage_begin (Some r) s)
           = AwaitManipulate \<lparr>reqUri = uri a, reqWidth = 1000, reqHeight = 1000,
                               reqCompress = compressionQuality (Some n)\<rparr>
         \<and> ManipulateAsync \<lparr>reqUri = uri a, reqWidth = 1000, reqHeight = 1000,
                              reqCompress = compressionQuality (Some n)\<rparr>
             \<in> set (snd (snd (processImage manipulateAsync during (Some r) s)))"
proof -
  have large: "\<not> smallEnough a"
    using assms(4,5) by (rule over_threshold_not_small)
  have dims: "targetDimensions a = (1000, 1000)"
    using assms(6,7) by (simp add: targetDimensions_def or_default_def MAX_DIMENSION_def)
  have start: "processImage_begin (Some r) s
           = (AwaitManipulate \<lparr>reqUri = uri a, reqWidth = 1000, reqHeight = 1000,
                               reqCompress = compressionQuality (Some n)\<rparr>,
              safeSetState setProcessingImage True s)"
    using processImage_begin_large [OF assms(1-3) large, of s] dims assms(4) by simp
  show ?thesis
    by (simp add: processImage_def start split: prod.splits)
qed

theorem processImage_missing_dimensions_default_witness:
  "(1900000::nat) \<le> 2500000
   \<and> fst (processImage_begin
            (Some (pickerResult [\<lparr>uri = ''file:///raw.jpg'', fileSize = Some 2500000,
                                   width = None, height = None\<rparr>]))
            (initialScreen (Some 1)))
       = AwaitManipulate \<lparr>reqUri = ''file:///raw.jpg'', reqWidth = 1000, reqHeight = 1000,
                           reqCompress = 7 / 10\<rparr>
   \<and> ManipulateAsync \<lparr>reqUri = ''file:///raw.jpg'', reqWidth = 1000, reqHeight = 1000,
                        reqCompress = 7 / 10\<rparr>
       \<in> set (snd (snd (processImage (manipulatorReporting None) id
            (Some (pickerResult [\<lparr>uri = ''file:///raw.jpg'', fileSize = Some 2500000,
                                   width = None, height = None\<rparr>]))
            (initialScreen (Some 1)))))"
  using processImage_missing_dimensions_default
    [of "pickerResult [\<lparr>uri = ''file:///raw.jpg'', fileSize = Some 2500000,
                         width = None, height = None\<rparr>]"
        "\<lparr>uri = ''file:///raw.jpg'', fileSize = Some 2500000, width = None, height = None\<rparr>"
        2500000 "initialScreen (Some 1)" "manipulatorReporting None" id]
  by (simp add: pickerResult_def extractAsset_def compressionQuality_values)

section \<open>Size of the processed asset\<close>

text \<open>
  C3 (as amended): for an input asset with \<open>fileSize\<close> of at least 1,900,000 bytes, when
  the resize operation succeeds and the screen is still mounted, \<open>processImage\<close>
  returns the operation's asset; if the operation reported no size (or 0), its
  \<open>fileSize\<close> is set to the estimate round(targetWidth * targetHeight * quality * 0.15),
  the product being taken in double arithmetic as the code takes it; the estimate is at
  most 151,200 and hence strictly lower than the input's size; a non-zero reported size is
  returned as it is.
\<close>

theorem processImage_estimated_size_lower:
  assumes "\<not> canceled r" and "assets r \<noteq> Some []" and "extractAsset r = Some a"
    and "fileSize a = Some n" and "1900000 \<le> n"
    and "manipulateAsync \<lparr>reqUri = uri a, reqWidth = fst (targetDimensions a),
                           reqHeight = snd (targetDimensions a),
                           reqCompress = compressionQuality (Some n)\<rparr> = ManipResult m"
    and "mountedRef (during (safeSetState setProcessingImage True s))"
  shows "(let est = estimatedSize (fst (targetDimensions a)) (snd (targetDimensions a))
                      (compressionQuality (Some n))
          in fst (processImage manipulateAsync during (Some r) s)
               = Some (if truthy_num (fileSize m) then m else m\<lparr>fileSize := Some est\<rparr>)
             \<and> est \<le> 151200 \<and> est < n)"
proof -
  define rq where "rq = \<lparr>reqUri = uri a, reqWidth = fst (targetDimensions a),
                           reqHeight = snd (targetDimensions a),
                           reqCompress = compressionQuality (Some n)\<rparr>"
  define est where "est = estimatedSize (fst (targetDimensions a)) (snd (targetDimensions a))
                      (compressionQuality (Some n))"
  have large: "\<not> smallEnough a"
    using assms(4,5) by (rule over_threshold_not_small)
  have start: "processImage_begin (Some r) s = (AwaitManipulate rq, safeSetState setProcessingImage True s)"
    using processImage_begin_large [OF assms(1-3) large, of s] assms(4) by (simp add: rq_def)
  have answer: "manipulateAsync rq = ManipResult m"
    using assms(6) by (simp add: rq_def)
  have "fst (processImage manipulateAsync during (Some r) s)
           = Some (if truthy_num (fileSize m) then m
                   else m\<lparr>fileSize :=
                           Some (estimatedSize (reqWidth rq) (reqHeight rq) (reqCompress rq))\<rparr>)"
    using assms(7) by (simp add: processImage_def start answer processImage_resume_def)
  then have result: "fst (processImage manipulateAsync during (Some r) s)
           = Some (if truthy_num (fileSize m) then m else m\<lparr>fileSize := Some est\<rparr>)"
    by (simp add: rq_def est_def)
  have bound: "est \<le> 151200"
    unfolding est_def using targetDimensions_le [of a] compressionQuality_range [of "Some n"]
    by (intro estimatedSize_le) simp_all
  with assms(5) have "est < n" by simp
  with result bound show ?thesis
    unfolding Let_def est_def by simp
qed

theorem processImage_estimated_size_lower_witness:
  "(1900000::nat) \<le> 4000000
   \<and> mountedRef (id (safeSetState setProcessingImage True (initialScreen (Some 1))))
   \<and> fst (processImage (manipulatorReporting None) id
        (Some (pickerResult [\<lparr>uri = ''file:///wide.jpg'', fileSize = Some 4000000,
                               width = Some 4000, height = Some 3000\<rparr>]))
        (initialScreen (Some 1)))
       = Some \<lparr>uri = ''file:///cache/resized.jpg'', fileSize = Some 97200,
               width = Some 1200, height = Some 900\<rparr>
   \<and> (97200::nat) < 4000000
   \<and> fst (processImage (manipulatorReporting None) id
        (Some (pickerResult [\<lparr>uri = ''file:///strip.jpg'', fileSize = Some 2000000,
                               width = Some 900, height = Some 201\<rparr>]))
        (initialScreen (Some 1)))
       = Some \<lparr>uri = ''file:///cache/resized.jpg'', fileSize = Some 18994,
               width = Some 900, height = Some 201\<rparr>
   \<and> (18994::nat) < 2000000"
  using processImage_estimated_size_lower
    [of "pickerResult [\<lparr>uri = ''file:///wide.jpg'', fileSize = Some 4000000,
                         width = Some 4000, height = Some 3000\<rparr>]"
        "\<lparr>uri = ''file:///wide.jpg'', fileSize = Some 4000000,
          width = Some 4000, height = Some 3000\<rparr>"
        4000000 "manipulatorReporting None"
        "\<lparr>uri = ''file:///cache/resized.jpg'', fileSize = None,
          width = Some 1200, height = Some 900\<rparr>"
        id "initialScreen (Some 1)"]
    processImage_estimated_size_lower
    [of "pickerResult [\<lparr>uri = ''file:///strip.jpg'', fileSize = Some 2000000,
                         width = Some 900, height = Some 201\<rparr>]"
        "\<lparr>uri = ''file:///strip.jpg'', fileSize = Some 2000000,
          width = Some 900, height = Some 201\<rparr>"
        2000000 "manipulatorReporting None"
        "\<lparr>uri = ''file:///cache/resized.jpg'', fileSize = None,
          width = Some 900, height = Some 201\<rparr>"
        id "initialScreen (Some 1)"]
  by (simp add: pickerResult_def extractAsset_def compressionQuality_values targetDimensions_def
      or_default_def MAX_DIMENSION_def Math_round_def floor_rat_numeral_div estimatedSize_def
      to_double_eval manipulatorReporting_def truthy_num_def initialScreen_def
      safeSetState_def setProcessingImage_def)

text \<open>
  The claim as first stated also promises a lower size when the operation reports one.
  The reported size is passed through without any comparison: a library reporting
  3,000,000 bytes for a 2,000,000-byte input yields an asset of 3,000,000 bytes.
\<close>

theorem processImage_reported_size_counterexample:
  "(1900000::nat) \<le> 2000000
   \<and> processImage (manipulatorReporting (Some 3000000)) id
        (Some (pickerResult [\<lparr>uri = ''file:///wide.jpg'', fileSize = Some 2000000,
                               width = Some 4000, height = Some 3000\<rparr>]))
        (initialScreen (Some 1))
       = (Some \<lparr>uri = ''file:///cache/resized.jpg'', fileSize = Some 3000000,
                width = Some 1200, height = Some 900\<rparr>,
          initialScreen (Some 1),
          [ManipulateAsync \<lparr>reqUri = ''file:///wide.jpg'', reqWidth = 1200, reqHeight = 900,
                            reqCompress = 7 / 10\<rparr>])
   \<and> \<not> (3000000::nat) < 2000000"
  by (simp add: processImage_def processImage_begin_def processImage_resume_def pickerResult_def
      extractAsset_def smallEnough_def truthy_num_def js_lt_def js_gt_def compressionQuality_def
      targetDimensions_def or_default_def MAX_DIMENSION_def MAX_IMAGE_SIZE_def
      Math_round_def floor_rat_numeral_div manipulatorReporting_def initialScreen_def
      safeSetState_def setProcessingImage_def)

section \<open>Failure of the resize operation\<close>

text \<open>
  C5 (as amended): if the resize/compress operation throws, \<open>processImage\<close> calls it
  exactly once (no retry) and returns null; if the screen is still mounted at that moment it
  also clears the processing flag and shows the alert ``Failed to process image'', and if
  the screen has been unmounted meanwhile it changes nothing and shows no alert.  Called
  from \<open>takePicture\<close> or \<open>pickImage\<close> on an idle mounted screen, the failure leaves the
  screen as it was: no captured image is stored, so there is nothing to upload.
\<close>

theorem processImage_resize_failure:
  assumes "processImage_begin ir s = (AwaitManipulate rq, s1)"
    and "manipulateAsync rq = ManipThrows"
  shows "processImage manipulateAsync during ir s =
           (if mountedRef (during s1) then
              (None, (during s1)\<lparr>processingImage := False\<rparr>,
               [ManipulateAsync rq, Alert ''Error'' ''Failed to process image''])
            else (None, during s1, [ManipulateAsync rq]))
         \<and> (mountedRef s \<and> \<not> isOperationInProgress s \<longrightarrow>
              takePicture (LaunchResult ir) manipulateAsync id id s
                = (s, [ManipulateAsync rq, Alert ''Error'' ''Failed to process image''])
              \<and> pickImage (LaunchResult ir) manipulateAsync id id s
                = (s, [ManipulateAsync rq, Alert ''Error'' ''Failed to process image'']))"
proof -
  have thrown: "processImage manipulateAsync d ir s =
           (if mountedRef (d s1) then
              (None, (d s1)\<lparr>processingImage := False\<rparr>,
               [ManipulateAsync rq, Alert ''Error'' ''Failed to process image''])
            else (None, d s1, [ManipulateAsync rq]))" for d
    using assms by (rule processImage_throws)
  have s1: "s1 = safeSetState setProcessingImage True s"
    using assms(1) by (rule processImage_begin_await_state)
  have restored: "mountedRef s \<Longrightarrow> \<not> isOperationInProgress s \<Longrightarrow> s1\<lparr>processingImage := False\<rparr> = s"
    by (simp add: s1 safeSetState_def setProcessingImage_def isOperationInProgress_def)
  have m1: "mountedRef s \<Longrightarrow> mountedRef s1"
    by (simp add: s1 safeSetState_def setProcessingImage_def)
  show ?thesis
    using thrown [of during] thrown [of id] restored m1
    by (simp add: takePicture_def pickImage_def)
qed


theorem processImage_resize_failure_witness:
  "processImage_begin
       (Some (pickerResult [\<lparr>uri = ''file:///wide.jpg'', fileSize = Some 4000000,
                              width = Some 4000, height = Some 3000\<rparr>]))
       (initialScreen (Some 1))
     = (AwaitManipulate \<lparr>reqUri = ''file:///wide.jpg'', reqWidth = 1200, reqHeight = 900,
                          reqCompress = 6 / 10\<rparr>,
        (initialScreen (Some 1))\<lparr>processingImage := True\<rparr>)
   \<and> manipulatorFailing \<lparr>reqUri = ''file:///wide.jpg'', reqWidth = 1200, reqHeight = 900,
                           reqCompress = 6 / 10\<rparr> = ManipThrows
   \<and> mountedRef (initialScreen (Some 1)) \<and> \<not> isOperationInProgress (initialScreen (Some 1))
   \<and> processImage manipulatorFailing id
        (Some (pickerResult [\<lparr>uri = ''file:///wide.jpg'', fileSize = Some 4000000,
                               width = Some 4000, height = Some 3000\<rparr>]))
        (initialScreen (Some 1))
     = (None, initialScreen (Some 1),
        [ManipulateAsync \<lparr>reqUri = ''file:///wide.jpg'', reqWidth = 1200, reqHeight = 900,
                          reqCompress = 6 / 10\<rparr>,
         Alert ''Error'' ''Failed to process image''])
   \<and> takePicture
        (LaunchResult (Some (pickerResult [\<lparr>uri = ''file:///wide.jpg'', fileSize = Some 4000000,
                                             width = Some 4000, height = Some 3000\<rparr>])))
        manipulatorFailing id id (initialScreen (Some 1))
     = (initialScreen (Some 1),
        [ManipulateAsync \<lparr>reqUri = ''file:///wide.jpg'', reqWidth = 1200, reqHeight = 900,
                          reqCompress = 6 / 10\<rparr>,
         Alert ''Error'' ''Failed to process image''])"
proof -
  have start: "processImage_begin
       (Some (pickerResult [\<lparr>uri = ''file:///wide.jpg'', fileSize = Some 4000000,
                              width = Some 4000, height = Some 3000\<rparr>]))
       (initialScreen (Some 1))
     = (AwaitManipulate \<lparr>reqUri = ''file:///wide.jpg'', reqWidth = 1200, reqHeight = 900,
                          reqCompress = 6 / 10\<rparr>,
        (initialScreen (Some 1))\<lparr>processingImage := True\<rparr>)"
    by (simp add: processImage_begin_def pickerResult_def extractAsset_def smallEnough_def
        truthy_num_def js_lt_def js_gt_def compressionQuality_def targetDimensions_def
        or_default_def MAX_DIMENSION_def MAX_IMAGE_SIZE_def Math_round_def
        floor_rat_numeral_div initialScreen_def safeSetState_def setProcessingImage_def)
  have thrown: "manipulatorFailing \<lparr>reqUri = ''file:///wide.jpg'', reqWidth = 1200,
                  reqHeight = 900, reqCompress = 6 / 10\<rparr> = ManipThrows"
    by (simp add: manipulatorFailing_def)
  have idle: "mountedRef (initialScreen (Some 1)) \<and> \<not> isOperationInProgress (initialScreen (Some 1))"
    by (simp add: initialScreen_def isOperationInProgress_def)
  show ?thesis
    using processImage_resize_failure
        [where manipulateAsync = manipulatorFailing and during = id, OF start thrown]
      start thrown idle
    by (simp add: initialScreen_def)
qed

text \<open>
  The claim as first stated has the alert and the cleared flag in every case.  When the
  screen is unmounted while the operation is pending, the handler only returns null.
\<close>

theorem processImage_unmounted_failure_counterexample:
  "manipulatorFailing \<lparr>reqUri = ''file:///wide.jpg'', reqWidth = 1200, reqHeight = 900,
                        reqCompress = 6 / 10\<rparr> = ManipThrows
   \<and> processImage manipulatorFailing unmount
        (Some (pickerResult [\<lparr>uri = ''file:///wide.jpg'', fileSize = Some 4000000,
                               width = Some 4000, height = Some 3000\<rparr>]))
        (initialScreen (Some 1))
     = (None,
        \<lparr>capturedImage = None, loading = False, processingImage = True, isNavigating = False,
         uploadingRef = False, navigationTimeoutRef = None, mountedRef = False,
         folderId = Some 1\<rparr>,
        [ManipulateAsync \<lparr>reqUri = ''file:///wide.jpg'', reqWidth = 1200, reqHeight = 900,
                          reqCompress = 6 / 10\<rparr>])"
  by (simp add: processImage_def processImage_begin_def processImage_resume_def pickerResult_def
      extractAsset_def smallEnough_def truthy_num_def js_lt_def js_gt_def compressionQuality_def
      targetDimensions_def or_default_def MAX_DIMENSION_def MAX_IMAGE_SIZE_def
      Math_round_def floor_rat_numeral_div manipulatorFailing_def initialScreen_def
      safeSetState_def setProcessingImage_def unmount_def)

section \<open>The upload guard\<close>

text \<open>
  C4 (as amended): when \<open>uploadImage\<close> is invoked while one of the operation flags
  (\<open>loading\<close>, \<open>processingImage\<close>, \<open>isNavigating\<close> or the uploading ref) is set, the
  call changes no screen state, sends no upload request and does not navigate.  The guard
  comes after the two presence checks of the handler, so the only thing such a call can do
  is show their alert when no image is captured or the folder id is missing.  In
  particular, once a call has issued its upload request the flags are set, and a second
  call made then does nothing at all.
\<close>

theorem uploadImage_noop_while_in_progress:
  "(isOperationInProgress s \<longrightarrow>
      uploadImage answer during s =
        (s, if capturedImage s = None then [Alert ''Error'' ''No image to upload'']
            else if \<not> truthy_num (folderId s) then
              [Alert ''Error'' ''Folder ID is missing. Cannot upload image.'']
            else [])
      \<and> (\<forall>img fid. UploadRequest img fid \<notin> set (snd (uploadImage answer during s)))
      \<and> (\<forall>name fid. NavReplace name fid \<notin> set (snd (uploadImage answer during s)))
      \<and> NavGoBack \<notin> set (snd (uploadImage answer during s)))
   \<and> (fst (uploadImage_begin s) \<longrightarrow>
      isOperationInProgress (fst (snd (uploadImage_begin s)))
      \<and> uploadImage answer during (fst (snd (uploadImage_begin s)))
          = (fst (snd (uploadImage_begin s)), []))"
proof (intro conjI impI)
  assume busy: "isOperationInProgress s"
  note guarded = uploadImage_begin_guarded [OF busy]
  show "uploadImage answer during s =
        (s, if capturedImage s = None then [Alert ''Error'' ''No image to upload'']
            else if \<not> truthy_num (folderId s) then
              [Alert ''Error'' ''Folder ID is missing. Cannot upload image.'']
            else [])"
    by (simp add: uploadImage_def guarded)
  show "\<forall>img fid. UploadRequest img fid \<notin> set (snd (uploadImage answer during s))"
    by (simp add: uploadImage_def guarded)
  show "\<forall>name fid. NavReplace name fid \<notin> set (snd (uploadImage answer during s))"
    by (simp add: uploadImage_def guarded)
  show "NavGoBack \<notin> set (snd (uploadImage answer during s))"
    by (simp add: uploadImage_def guarded)
next
  assume issued: "fst (uploadImage_begin s)"
  then show "isOperationInProgress (fst (snd (uploadImage_begin s)))"
    using uploadImage_begin_issued [of s] by (auto simp add: isOperationInProgress_def)
  show "uploadImage answer during (fst (snd (uploadImage_begin s)))
          = (fst (snd (uploadImage_begin s)), [])"
    using issued by (rule uploadImage_second_call)
qed

theorem uploadImage_noop_while_in_progress_witness:
  "uploadImage_begin
       ((initialScreen (Some 7))
          \<lparr>capturedImage := Some \<lparr>uri = ''file:///photo.jpg'', fileSize = Some 1500000,
                                    width = Some 4000, height = Some 3000\<rparr>\<rparr>)
     = (True,
        \<lparr>capturedImage = Some \<lparr>uri = ''file:///photo.jpg'', fileSize = Some 1500000,
                                 width = Some 4000, height = Some 3000\<rparr>,
         loading = True, processingImage = False, isNavigating = False, uploadingRef = True,
         navigationTimeoutRef = None, mountedRef = True, folderId = Some 7\<rparr>,
        [UploadRequest \<lparr>uri = ''file:///photo.jpg'', fileSize = Some 1500000,
                        width = Some 4000, height = Some 3000\<rparr> 7])
   \<and> isOperationInProgress
        \<lparr>capturedImage = Some \<lparr>uri = ''file:///photo.jpg'', fileSize = Some 1500000,
                                 width = Some 4000, height = Some 3000\<rparr>,
         loading = True, processingImage = False, isNavigating = False, uploadingRef = True,
         navigationTimeoutRef = None, mountedRef = True, folderId = Some 7\<rparr>
   \<and> uploadImage UploadOk id
        \<lparr>capturedImage = Some \<lparr>uri = ''file:///photo.jpg'', fileSize = Some 1500000,
                                 width = Some 4000, height = Some 3000\<rparr>,
         loading = True, processingImage = False, isNavigating = False, uploadingRef = True,
         navigationTimeoutRef = None, mountedRef = True, folderId = Some 7\<rparr>
     = (\<lparr>capturedImage = Some \<lparr>uri = ''file:///photo.jpg'', fileSize = Some 1500000,
                                 width = Some 4000, height = Some 3000\<rparr>,
         loading = True, processingImage = False, isNavigating = False, uploadingRef = True,
         navigationTimeoutRef = None, mountedRef = True, folderId = Some 7\<rparr>, [])
   \<and> uploadImage UploadOk id
        ((initialScreen (Some 7))\<lparr>processingImage := True\<rparr>)
     = ((initialScreen (Some 7))\<lparr>processingImage := True\<rparr>,
        [Alert ''Error'' ''No image to upload''])"
proof -
  have first: "uploadImage_begin
       ((initialScreen (Some 7))
          \<lparr>capturedImage := Some \<lparr>uri = ''file:///photo.jpg'', fileSize = Some 1500000,
                                    width = Some 4000, height = Some 3000\<rparr>\<rparr>)
     = (True,
        \<lparr>capturedImage = Some \<lparr>uri = ''file:///photo.jpg'', fileSize = Some 1500000,
                                 width = Some 4000, height = Some 3000\<rparr>,
         loading = True, processingImage = False, isNavigating = False, uploadingRef = True,
         navigationTimeoutRef = None, mountedRef = True, folderId = Some 7\<rparr>,
        [UploadRequest \<lparr>uri = ''file:///photo.jpg'', fileSize = Some 1500000,
                        width = Some 4000, height = Some 3000\<rparr> 7])"
    by (simp add: uploadImage_begin_def initialScreen_def isOperationInProgress_def
        safeSetState_def setLoading_def)
  show ?thesis
    using first
      uploadImage_noop_while_in_progress
        [of "(initialScreen (Some 7))
               \<lparr>capturedImage := Some \<lparr>uri = ''file:///photo.jpg'', fileSize = Some 1500000,
                                         width = Some 4000, height = Some 3000\<rparr>\<rparr>"
            UploadOk id]
      uploadImage_noop_while_in_progress
        [of "(initialScreen (Some 7))\<lparr>processingImage := True\<rparr>" UploadOk id]
    by (simp add: initialScreen_def isOperationInProgress_def)
qed

text \<open>
  The claim as first stated covers every call made while an operation is in flight.  The
  guard follows the flags, not the request: when the safety timer fires while the answer
  to the first request is still awaited, the flags are lowered, and a further call sends a
  second request and goes on to navigate.
\<close>

theorem uploadImage_after_safety_timeout_counterexample:
  "uploadImage_begin
       \<lparr>capturedImage = Some \<lparr>uri = ''file:///photo.jpg'', fileSize = Some 1500000,
                                width = Some 4000, height = Some 3000\<rparr>,
        loading = False, processingImage = False, isNavigating = False, uploadingRef = False,
        navigationTimeoutRef = None, mountedRef = True, folderId = Some 7\<rparr>
     = (True,
        \<lparr>capturedImage = Some \<lparr>uri = ''file:///photo.jpg'', fileSize = Some 1500000,
                                 width = Some 4000, height = Some 3000\<rparr>,
         loading = True, processingImage = False, isNavigating = False, uploadingRef = True,
         navigationTimeoutRef = None, mountedRef = True, folderId = Some 7\<rparr>,
        [UploadRequest \<lparr>uri = ''file:///photo.jpg'', fileSize = Some 1500000,
                        width = Some 4000, height = Some 3000\<rparr> 7])
   \<and> safetyTimeoutFired
        (safetyTimeoutEffect
           \<lparr>capturedImage = Some \<lparr>uri = ''file:///photo.jpg'', fileSize = Some 1500000,
                                    width = Some 4000, height = Some 3000\<rparr>,
            loading = True, processingImage = False, isNavigating = False, uploadingRef = True,
            navigationTimeoutRef = None, mountedRef = True, folderId = Some 7\<rparr>)
     = (\<lparr>capturedImage = Some \<lparr>uri = ''file:///photo.jpg'', fileSize = Some 1500000,
                                 width = Some 4000, height = Some 3000\<rparr>,
         loading = False, processingImage = False, isNavigating = False, uploadingRef = False,
         navigationTimeoutRef = None, mountedRef = True, folderId = Some 7\<rparr>, [])
   \<and> uploadImage UploadOk id
        \<lparr>capturedImage = Some \<lparr>uri = ''file:///photo.jpg'', fileSize = Some 1500000,
                                 width = Some 4000, height = Some 3000\<rparr>,
         loading = False, processingImage = False, isNavigating = False, uploadingRef = False,
         navigationTimeoutRef = None, mountedRef = True, folderId = Some 7\<rparr>
     = (\<lparr>capturedImage = Some \<lparr>uri = ''file:///photo.jpg'', fileSize = Some 1500000,
                                 width = Some 4000, height = Some 3000\<rparr>,
         loading = True, processingImage = False, isNavigating = True, uploadingRef = True,
         navigationTimeoutRef = None, mountedRef = True, folderId = Some 7\<rparr>,
        [UploadRequest \<lparr>uri = ''file:///photo.jpg'', fileSize = Some 1500000,
                        width = Some 4000, height = Some 3000\<rparr> 7,
         NavReplace ''FolderDetail'' (Some 7)])"
  by (simp add: uploadImage_def uploadImage_begin_def uploadImage_resume_def
      safetyTimeoutFired_def safetyTimeoutEffect_def resetAllStates_def SAFETY_TIMEOUT_def
      isOperationInProgress_def safeSetState_def setLoading_def setIsNavigating_def
      setProcessingImage_def Let_def)

section \<open>The safety timeout\<close>

text \<open>
  C7: the effect arms a timer of exactly 5000 ms whenever one of the four operation flags
  is set, touching nothing but the timer reference.  When the timer fires on a mounted
  screen (unmounting clears the timer, see \<open>unmount_clears_timer\<close>), the four flags are
  lowered and the timer reference cleared, and nothing else changes: the captured image
  and the folder id stay as they are.  The callback has no effect outside the screen state;
  in particular a pending upload is not aborted, and its answer is still handled afterwards
  (a success still navigates to the folder).
\<close>

theorem safety_timeout_resets_only_flags:
  assumes "mountedRef s"
  shows "SAFETY_TIMEOUT = 5000
         \<and> (isOperationInProgress s \<longrightarrow>
              safetyTimeoutEffect s = s\<lparr>navigationTimeoutRef := Some 5000\<rparr>)
         \<and> safetyTimeoutFired s =
             (s\<lparr>isNavigating := False, loading := False, processingImage := False,
                uploadingRef := False, navigationTimeoutRef := None\<rparr>, [])
         \<and> \<not> isOperationInProgress (fst (safetyTimeoutFired s))
         \<and> capturedImage (fst (safetyTimeoutFired s)) = capturedImage s
         \<and> snd (uploadImage_resume UploadOk (fst (safetyTimeoutFired s)))
             = [NavReplace ''FolderDetail'' (folderId s)]"
  using assms
  by (auto simp add: SAFETY_TIMEOUT_def safetyTimeoutEffect_def safetyTimeoutFired_def
      resetAllStates_mounted isOperationInProgress_def uploadImage_resume_def Let_def
      safeSetState_def setIsNavigating_def)

theorem safety_timeout_resets_only_flags_witness:
  "mountedRef
     \<lparr>capturedImage = Some \<lparr>uri = ''file:///photo.jpg'', fileSize = Some 1500000,
                              width = Some 4000, height = Some 3000\<rparr>,
      loading = True, processingImage = False, isNavigating = False, uploadingRef = True,
      navigationTimeoutRef = None, mountedRef = True, folderId = Some 7\<rparr>
   \<and> safetyTimeoutEffect
        \<lparr>capturedImage = Some \<lparr>uri = ''file:///photo.jpg'', fileSize = Some 1500000,
                                 width = Some 4000, height = Some 3000\<rparr>,
         loading = True, processingImage = False, isNavigating = False, uploadingRef = True,
         navigationTimeoutRef = None, mountedRef = True, folderId = Some 7\<rparr>
     = \<lparr>capturedImage = Some \<lparr>uri = ''file:///photo.jpg'', fileSize = Some 1500000,
                                width = Some 4000, height = Some 3000\<rparr>,
        loading = True, processingImage = False, isNavigating = False, uploadingRef = True,
        navigationTimeoutRef = Some 5000, mountedRef = True, folderId = Some 7\<rparr>
   \<and> safetyTimeoutFired
        \<lparr>capturedImage = Some \<lparr>uri = ''file:///photo.jpg'', fileSize = Some 1500000,
                                 width = Some 4000, height = Some 3000\<rparr>,
         loading = True, processingImage = False, isNavigating = False, uploadingRef = True,
         navigationTimeoutRef = Some 5000, mountedRef = True, folderId = Some 7\<rparr>
     = (\<lparr>capturedImage = Some \<lparr>uri = ''file:///photo.jpg'', fileSize = Some 1500000,
                                 width = Some 4000, height = Some 3000\<rparr>,
         loading = False, processingImage = False, isNavigating = False, uploadingRef = False,
         navigationTimeoutRef = None, mountedRef = True, folderId = Some 7\<rparr>, [])"
  using safety_timeout_resets_only_flags
    [of "\<lparr>capturedImage = Some \<lparr>uri = ''file:///photo.jpg'', fileSize = Some 1500000,
                                 width = Some 4000, height = Some 3000\<rparr>,
         loading = True, processingImage = False, isNavigating = False, uploadingRef = True,
         navigationTimeoutRef = None, mountedRef = True, folderId = Some 7\<rparr>"]
    safety_timeout_resets_only_flags
    [of "\<lparr>capturedImage = Some \<lparr>uri = ''file:///photo.jpg'', fileSize = Some 1500000,
                                 width = Some 4000, height = Some 3000\<rparr>,
         loading = True, processingImage = False, isNavigating = False, uploadingRef = True,
         navigationTimeoutRef = Some 5000, mountedRef = True, folderId = Some 7\<rparr>"]
  by (simp add: isOperationInProgress_def SAFETY_TIMEOUT_def)

section \<open>The HTTP client\<close>

text \<open>
  C8 (as amended): for every request sent while a non-empty token is in the secure store,
  the request interceptor sets the header \<open>Authorization\<close> to ``Bearer '' followed by
  that token; when no token (or an empty one) is stored, the request goes out with its
  headers unchanged.
\<close>

theorem requestInterceptor_bearer_header:
  "(store ''token'' = Some token \<and> token \<noteq> [] \<longrightarrow>
      headers (requestInterceptor store config) ''Authorization'' = Some (''Bearer '' @ token))
   \<and> (store ''token'' = None \<or> store ''token'' = Some [] \<longrightarrow>
      headers (requestInterceptor store config) = headers config)"
  by (auto simp add: requestInterceptor_def Let_def split: option.splits)

theorem requestInterceptor_bearer_header_witness:
  "[''token'' \<mapsto> ''s3cr3t''] ''token'' = Some ''s3cr3t'' \<and> ''s3cr3t'' \<noteq> []
   \<and> headers (requestInterceptor [''token'' \<mapsto> ''s3cr3t'']
                 \<lparr>url = Some ''/folders'', headers = [''Accept'' \<mapsto> ''application/json'']\<rparr>)
         ''Authorization'' = Some ''Bearer s3cr3t''
   \<and> headers (requestInterceptor Map.empty
                 \<lparr>url = Some ''/login'', headers = [''Accept'' \<mapsto> ''application/json'']\<rparr>)
       = [''Accept'' \<mapsto> ''application/json'']"
  using requestInterceptor_bearer_header
    [of "[''token'' \<mapsto> ''s3cr3t'']" "''s3cr3t''"
        "\<lparr>url = Some ''/folders'', headers = [''Accept'' \<mapsto> ''application/json'']\<rparr>"]
    requestInterceptor_bearer_header
    [of Map.empty "''''"
        "\<lparr>url = Some ''/login'', headers = [''Accept'' \<mapsto> ''application/json'']\<rparr>"]
  by simp

text \<open>
  The claim as first stated has the header on every request.  Before login the store holds
  no token, and the request is issued without an \<open>Authorization\<close> header.
\<close>

theorem requestInterceptor_no_token_counterexample:
  "Map.empty ''token'' = (None :: string option)
   \<and> headers (requestInterceptor Map.empty
                 \<lparr>url = Some ''/login'', headers = [''Accept'' \<mapsto> ''application/json'']\<rparr>)
         ''Authorization'' = None"
  by (simp add: requestInterceptor_def)

text \<open>
  C10 (as amended): for an error carrying a response with status 401, the response
  interceptor asks the secure store to delete the token.  When the deletion succeeds, the
  token (and nothing else) is gone from the store and the promise is rejected with the
  same error; when the deletion rejects, the token stays and the promise is rejected with
  the store's failure.  In no case is the promise resolved.
\<close>

theorem responseErrorInterceptor_401:
  assumes "response err = Some r" and "status r = 401"
  shows "responseErrorInterceptor StoreOk store err
           = (store(''token'' := None), Rejected (RequestError err))
         \<and> fst (responseErrorInterceptor StoreOk store err) ''token'' = None
         \<and> responseErrorInterceptor (StoreRejects e) store err
           = (store, Rejected (StorageError e))
         \<and> (\<forall>v. snd (responseErrorInterceptor deleteItemAsync store err) \<noteq> Resolved v)"
  using assms by (simp add: responseErrorInterceptor_def split: storeOutcome.splits)

theorem responseErrorInterceptor_401_witness:
  "response \<lparr>response = Some \<lparr>status = 401\<rparr>, message = ''Request failed with status code 401''\<rparr>
     = Some \<lparr>status = 401\<rparr>
   \<and> status \<lparr>status = 401\<rparr> = 401
   \<and> responseErrorInterceptor StoreOk [''token'' \<mapsto> ''s3cr3t'']
         \<lparr>response = Some \<lparr>status = 401\<rparr>, message = ''Request failed with status code 401''\<rparr>
       = (Map.empty,
          Rejected (RequestError \<lparr>response = Some \<lparr>status = 401\<rparr>,
                                  message = ''Request failed with status code 401''\<rparr>))"
  using responseErrorInterceptor_401
    [of "\<lparr>response = Some \<lparr>status = 401\<rparr>, message = ''Request failed with status code 401''\<rparr>"
        "\<lparr>status = 401\<rparr>" "[''token'' \<mapsto> ''s3cr3t'']"]
  by simp

text \<open>
  The claim as first stated has the token deleted and the 401 error passed on for every
  such response.  When the store rejects the deletion, the token is still there and the
  caller receives the store's failure in place of the 401 error.
\<close>

theorem responseErrorInterceptor_store_failure_counterexample:
  "response \<lparr>response = Some \<lparr>status = 401\<rparr>, message = ''Request failed with status code 401''\<rparr>
     = Some \<lparr>status = 401\<rparr>
   \<and> responseErrorInterceptor (StoreRejects ''Could not access the keychain'')
         [''token'' \<mapsto> ''s3cr3t'']
         \<lparr>response = Some \<lparr>status = 401\<rparr>, message = ''Request failed with status code 401''\<rparr>
       = ([''token'' \<mapsto> ''s3cr3t''], Rejected (StorageError ''Could not access the keychain''))
   \<and> [''token'' \<mapsto> ''s3cr3t''] ''token'' = Some ''s3cr3t''
   \<and> StorageError ''Could not access the keychain''
       \<noteq> RequestError \<lparr>response = Some \<lparr>status = 401\<rparr>,
                         message = ''Request failed with status code 401''\<rparr>"
  by (simp add: responseErrorInterceptor_def)

end
